theory Spec2Isabelle
  imports Complex_Main "HOL-Library.AList" "HOL-Library.Sublist" "HOL-Library.Monad_Syntax"
begin

section \<open>JavaScript values\<close>

text \<open>
  The dashboard moves JSON documents around: the body of an HTTP response, the object
  literal \<^verbatim>\<open>mockData\<close>, the records handed to the page. A value is one of JavaScript's
  JSON-shaped values. An object is an association list from property name to value,
  looked up by name (\<open>map_of\<close>) and written with \<open>AList.update\<close>, which replaces the
  value of a name that is there and adds a name that is not, as an object spread followed
  by property definitions does; the names of a JSON object are distinct. A number is the
  rational its decimal literal denotes: the code below copies numbers, tests them against
  zero and adds one to an array index, and does no other arithmetic, so no rounding is
  involved (a parsed JSON number is never NaN).
\<close>

datatype jsval =
    JUndefined
  | JNull
  | JBool bool
  | JNum rat
  | JStr string
  | JArr "jsval list"
  | JObj "(string \<times> jsval) list"

datatype js_error =
    TypeError string
  | SyntaxError string
  | Error string

fun message :: "js_error \<Rightarrow> string" where
  "message (TypeError m) = m"
| "message (SyntaxError m) = m"
| "message (Error m) = m"

text \<open>ToBoolean: what \<^verbatim>\<open>if (v)\<close>, \<^verbatim>\<open>v ? a : b\<close>, \<^verbatim>\<open>!v\<close> and \<^verbatim>\<open>v || w\<close> test.\<close>

fun truthy :: "jsval \<Rightarrow> bool" where
  "truthy JUndefined = False"
| "truthy JNull = False"
| "truthy (JBool b) = b"
| "truthy (JNum n) = (n \<noteq> 0)"
| "truthy (JStr s) = (s \<noteq> [])"
| "truthy (JArr xs) = True"
| "truthy (JObj kvs) = True"

text \<open>\<^verbatim>\<open>a || b\<close> is \<open>a\<close> when \<open>a\<close> is truthy, else \<open>b\<close>; \<^verbatim>\<open>a ?? b\<close> is \<open>b\<close> when \<open>a\<close> is
  \<^verbatim>\<open>null\<close> or \<^verbatim>\<open>undefined\<close>, else \<open>a\<close>.\<close>

definition js_or :: "jsval \<Rightarrow> jsval \<Rightarrow> jsval" where
  "js_or a b = (if truthy a then a else b)"

fun nullish :: "jsval \<Rightarrow> bool" where
  "nullish JUndefined = True"
| "nullish JNull = True"
| "nullish v = False"

definition js_coalesce :: "jsval \<Rightarrow> jsval \<Rightarrow> jsval" where
  "js_coalesce a b = (if nullish a then b else a)"

text \<open>
  Decimal text of a natural number and of an integer: the index keys of arrays and
  strings, the text of a status, and \<^verbatim>\<open>toString()\<close> of an integral number of magnitude
  below \<open>10\<^sup>2\<^sup>1\<close>. From \<open>10\<^sup>2\<^sup>1\<close> on JavaScript writes a number in exponent form, which
  is not modelled: what is stated below about the text of a limit is stated under that
  bound.
\<close>

definition digit_char :: "nat \<Rightarrow> char" where
  "digit_char d = ''0123456789'' ! d"

function show_nat :: "nat \<Rightarrow> string" where
  "show_nat n = (if n < 10 then [digit_char n] else show_nat (n div 10) @ [digit_char (n mod 10)])"
  by pat_completeness auto
termination
  by (relation "measure id") auto

declare show_nat.simps [simp del]

definition show_int :: "int \<Rightarrow> string" where
  "show_int i = (if i < 0 then CHR ''-'' # show_nat (nat (- i)) else show_nat (nat i))"

text \<open>
  The own enumerable properties of a value, which an object spread \<^verbatim>\<open>{...v}\<close> copies:
  those of an object, the elements of an array and the characters of a string under their
  index; \<^verbatim>\<open>null\<close>, \<^verbatim>\<open>undefined\<close>, numbers and booleans have none.
\<close>

fun own_props :: "jsval \<Rightarrow> (string \<times> jsval) list" where
  "own_props (JObj kvs) = kvs"
| "own_props (JArr xs) = zip (map show_nat [0..<length xs]) xs"
| "own_props (JStr s) = zip (map show_nat [0..<length s]) (map (\<lambda>c. JStr [c]) s)"
| "own_props v = []"

text \<open>
  Reading \<^verbatim>\<open>v.name\<close>: a TypeError on \<^verbatim>\<open>null\<close> and \<^verbatim>\<open>undefined\<close>, the property's value when
  \<open>v\<close> has it, \<^verbatim>\<open>undefined\<close> otherwise. The names read in this program
  (\<^verbatim>\<open>usedMockData\<close>, \<^verbatim>\<open>data\<close> and the record fields) are not inherited by any JSON value.
\<close>

definition read_prop :: "jsval \<Rightarrow> string \<Rightarrow> jsval" where
  "read_prop v name = (case map_of (own_props v) name of Some x \<Rightarrow> x | None \<Rightarrow> JUndefined)"

definition get_prop :: "jsval \<Rightarrow> string \<Rightarrow> js_error + jsval" where
  "get_prop v name =
     (if nullish v then Inl (TypeError (''Cannot read properties of null or undefined: '' @ name))
      else Inr (read_prop v name))"

text \<open>\<^verbatim>\<open>xs.slice(0, end)\<close> on a sequence of length \<open>n\<close>: a negative \<open>end\<close> counts from the
  back (\<open>max (n + end) 0\<close>), a non-negative one is capped at \<open>n\<close>.\<close>

definition slice0 :: "'a list \<Rightarrow> int \<Rightarrow> 'a list" where
  "slice0 xs e =
     (let n = int (length xs);
          final = (if e < 0 then max (n + e) 0 else min e n)
      in take (nat final) xs)"

section \<open>The sample dataset\<close>

text \<open>
  \<^verbatim>\<open>app/data/mockData.js\<close>: the object \<^verbatim>\<open>mockData\<close> with its \<^verbatim>\<open>config\<close> and the five records
  of \<^verbatim>\<open>data\<close>, in the order of the file. Each record is named after its \<^verbatim>\<open>symbol\<close>.
\<close>

definition mock_ETP :: jsval where
  "mock_ETP =
    JObj [(''id'', JNum 97),
      (''symbol'', JStr ''ETP''),
      (''name'', JStr ''Metaverse ETP''),
      (''price'', JNum 0.0052705359118452475),
      (''price_btc'', JNum (4984733257227768 / 100000000000000000000000)),
      (''volume_24h'', JNum 56189.41),
      (''volatility'', JNum 0),
      (''circulating_supply'', JNum 83662952.18862058),
      (''max_supply'', JNum 100000000),
      (''percent_change_1h'', JNum (- 0.040837050411)),
      (''percent_change_24h'', JNum 0.0649104500000177),
      (''percent_change_7d'', JNum 0.49231392),
      (''market_cap'', JNum 376842),
      (''market_cap_rank'', JNum 3251),
      (''interactions_24h'', JNum 15),
      (''social_volume_24h'', JNum 8),
      (''social_dominance'', JNum 0.0014768649111665756),
      (''market_dominance'', JNum 0.000011336233421155681),
      (''market_dominance_prev'', JNum 0.00001124945040608375),
      (''galaxy_score'', JNum 47.5),
      (''galaxy_score_previous'', JNum 47),
      (''alt_rank'', JNum 3857),
      (''alt_rank_previous'', JNum 4514),
      (''sentiment'', JNum 100),
      (''categories'', JStr ''pow''),
      (''blockchains'', JArr [JObj [(''type'', JStr ''layer1''),
          (''network'', JStr ''metaverse etp''),
          (''address'', JNull),
          (''decimals'', JNull)]]),
      (''topic'', JStr ''etp metaverse etp''),
      (''logo'', JStr ''https://cdn.lunarcrush.com/metaverse-etp.png''),
      (''rank'', JNum 1)]"

definition mock_XMX :: jsval where
  "mock_XMX =
    JObj [(''id'', JNum 98),
      (''symbol'', JStr ''XMX''),
      (''name'', JStr ''XMAX''),
      (''price'', JNum 0.000006302243993381724),
      (''price_btc'', JNum (5960495432422777 / 100000000000000000000000000)),
      (''volume_24h'', JNum 52556.93),
      (''volatility'', JNum 1.2032),
      (''circulating_supply'', JNum 29659000998.08),
      (''max_supply'', JNull),
      (''percent_change_1h'', JNum (- 0.09502078)),
      (''percent_change_24h'', JNum (- 0.02844175)),
      (''percent_change_7d'', JNum (- 0.0242053)),
      (''market_cap'', JNum 156649.56),
      (''market_cap_rank'', JNum 3720),
      (''interactions_24h'', JNum 508),
      (''social_volume_24h'', JNum 12),
      (''social_dominance'', JNum 0.0022152973667498633),
      (''market_dominance'', JNum 0.000004712362150400784),
      (''market_dominance_prev'', JNum 0.000004676287293759297),
      (''galaxy_score'', JNum 30.5),
      (''galaxy_score_previous'', JNum 51),
      (''alt_rank'', JNum 3231),
      (''alt_rank_previous'', JNum 1534),
      (''sentiment'', JNum 100),
      (''blockchains'', JArr [JObj [(''network'', JStr ''ethereum''),
          (''address'', JStr ''0x0f8c45b896784a1e408526b9300519ef8660209c''),
          (''decimals'', JNum 8)]]),
      (''topic'', JStr ''xmx xmax''),
      (''logo'', JStr ''https://cdn.lunarcrush.com/xmax.png''),
      (''rank'', JNum 2)]"

definition mock_META :: jsval where
  "mock_META =
    JObj [(''id'', JNum 184),
      (''symbol'', JStr ''META''),
      (''name'', JStr ''Metadium''),
      (''price'', JNum 0.02227433475925753),
      (''price_btc'', JNum (21047376327543203 / 100000000000000000000000)),
      (''volume_24h'', JNum 199107.09),
      (''volatility'', JNum 0.0077),
      (''circulating_supply'', JNum 1713108720),
      (''max_supply'', JNull),
      (''percent_change_1h'', JNum 0.301151352783),
      (''percent_change_24h'', JNum (- 0.476776598631)),
      (''percent_change_7d'', JNum (- 1.828764431219)),
      (''market_cap'', JNum 38158357.11),
      (''market_cap_rank'', JNum 809),
      (''interactions_24h'', JNum 836),
      (''social_volume_24h'', JNum 8),
      (''social_dominance'', JNum 0.0014768649111665756),
      (''market_dominance'', JNum 0.0011478870273663115),
      (''market_dominance_prev'', JNum 0.0011390995321290576),
      (''galaxy_score'', JNum 16.6),
      (''galaxy_score_previous'', JNum 52),
      (''alt_rank'', JNum 2678),
      (''alt_rank_previous'', JNum 1929),
      (''sentiment'', JNum 100),
      (''blockchains'', JArr [JObj [(''type'', JStr ''layer1''),
          (''network'', JStr ''metadium''),
          (''address'', JNull),
          (''decimals'', JNull)],
        JObj [(''network'', JStr ''ethereum''),
          (''address'', JStr ''0xde2f7766c8bf14ca67193128535e5c7454f8387c''),
          (''decimals'', JNum 18)]]),
      (''topic'', JStr ''meta metadium''),
      (''logo'', JStr ''https://cdn.lunarcrush.com/metadium.png''),
      (''rank'', JNum 3)]"

definition mock_BTC :: jsval where
  "mock_BTC =
    JObj [(''id'', JNum 1),
      (''symbol'', JStr ''BTC''),
      (''name'', JStr ''Bitcoin''),
      (''price'', JNum 106859.23),
      (''price_btc'', JNum 1),
      (''volume_24h'', JNum 25803489654),
      (''volatility'', JNum 0.0142),
      (''circulating_supply'', JNum 19760212),
      (''max_supply'', JNum 21000000),
      (''percent_change_1h'', JNum 0.301151352783),
      (''percent_change_24h'', JNum 1.47476598631),
      (''percent_change_7d'', JNum 5.828764431219),
      (''market_cap'', JNum 2111578923418),
      (''market_cap_rank'', JNum 1),
      (''interactions_24h'', JNum 154836),
      (''social_volume_24h'', JNum 19832),
      (''social_dominance'', JNum 35.2768649111665756),
      (''market_dominance'', JNum 53.724278870273663115),
      (''market_dominance_prev'', JNum 52.9890995321290576),
      (''galaxy_score'', JNum 75.6),
      (''galaxy_score_previous'', JNum 74.8),
      (''alt_rank'', JNum 1),
      (''alt_rank_previous'', JNum 1),
      (''sentiment'', JNum 65.7),
      (''blockchains'', JArr [JObj [(''type'', JStr ''layer1''),
          (''network'', JStr ''bitcoin''),
          (''address'', JNull),
          (''decimals'', JNull)]]),
      (''topic'', JStr ''btc bitcoin''),
      (''logo'', JStr ''https://cdn.lunarcrush.com/bitcoin.png''),
      (''rank'', JNum 4)]"

definition mock_ETH :: jsval where
  "mock_ETH =
    JObj [(''id'', JNum 2),
      (''symbol'', JStr ''ETH''),
      (''name'', JStr ''Ethereum''),
      (''price'', JNum 3582.76),
      (''price_btc'', JNum 0.033529),
      (''volume_24h'', JNum 19452748903),
      (''volatility'', JNum 0.0187),
      (''circulating_supply'', JNum 119987965),
      (''max_supply'', JNull),
      (''percent_change_1h'', JNum 0.15233),
      (''percent_change_24h'', JNum 1.23565),
      (''percent_change_7d'', JNum 3.74651),
      (''market_cap'', JNum 429923728547),
      (''market_cap_rank'', JNum 2),
      (''interactions_24h'', JNum 94253),
      (''social_volume_24h'', JNum 12954),
      (''social_dominance'', JNum 22.7368649111665756),
      (''market_dominance'', JNum 19.235470273663115),
      (''market_dominance_prev'', JNum 18.9761234321290576),
      (''galaxy_score'', JNum 72.3),
      (''galaxy_score_previous'', JNum 71.9),
      (''alt_rank'', JNum 2),
      (''alt_rank_previous'', JNum 2),
      (''sentiment'', JNum 62.4),
      (''blockchains'', JArr [JObj [(''type'', JStr ''layer1''),
          (''network'', JStr ''ethereum''),
          (''address'', JNull),
          (''decimals'', JNull)]]),
      (''topic'', JStr ''eth ethereum''),
      (''logo'', JStr ''https://cdn.lunarcrush.com/ethereum.png''),
      (''rank'', JNum 5)]"

definition mockData_data :: "jsval list" where
  "mockData_data = [mock_ETP, mock_XMX, mock_META, mock_BTC, mock_ETH]"

definition mockData :: jsval where
  "mockData =
    JObj [(''config'', JObj [(''generated'', JNum 1749002977)]),
      (''data'', JArr mockData_data)]"

section \<open>The service: getSentimentData\<close>

text \<open>
  \<^verbatim>\<open>app/services/lunarcrush.js\<close>. The argument \<^verbatim>\<open>params\<close> carries \<^verbatim>\<open>desc\<close> and \<^verbatim>\<open>limit\<close>, each
  possibly \<^verbatim>\<open>undefined\<close> (\<open>None\<close>). The function uses \<^verbatim>\<open>desc\<close> only through
  \<^verbatim>\<open>!== undefined\<close> and its truthiness, so \<open>Some b\<close> stands for a defined value of truthiness
  \<open>b\<close> (the page passes \<^verbatim>\<open>true\<close>/\<^verbatim>\<open>false\<close> or \<^verbatim>\<open>1\<close>/\<^verbatim>\<open>0\<close>); \<^verbatim>\<open>limit\<close> is an integral
  number. The argument itself may be missing (the default \<^verbatim>\<open>{}\<close> applies) or \<^verbatim>\<open>null\<close>.
\<close>

record params =
  desc :: "bool option"
  limit :: "int option"

datatype arg = ArgUndefined | ArgNull | ArgObj params

text \<open>
  What \<^verbatim>\<open>await fetch(url)\<close> followed by \<^verbatim>\<open>await response.json()\<close> can do: the request is
  rejected (network failure), or a response arrives with a status and a body that parses
  as JSON or does not. \<^verbatim>\<open>response.ok\<close> holds for the statuses 200 to 299.
\<close>

datatype body = Json jsval | Malformed js_error

datatype fetch_outcome = Rejected js_error | Responded nat body

definition response_ok :: "nat \<Rightarrow> bool" where
  "response_ok st = (200 \<le> st \<and> st \<le> 299)"

text \<open>\<^verbatim>\<open>URLSearchParams\<close>: \<^verbatim>\<open>append\<close> adds a pair at the end, \<^verbatim>\<open>toString\<close> joins
  \<^verbatim>\<open>name=value\<close> with \<^verbatim>\<open>&\<close>. The names and values written here consist of letters, digits
  and \<^verbatim>\<open>-\<close>, which the encoding leaves as they are (the limit being of magnitude below
  \<open>10\<^sup>2\<^sup>1\<close>, so that its text is plain decimal).\<close>

fun search_toString :: "(string \<times> string) list \<Rightarrow> string" where
  "search_toString [] = []"
| "search_toString [(k, v)] = k @ ''='' @ v"
| "search_toString ((k, v) # kvs) = k @ ''='' @ v @ ''&'' @ search_toString kvs"

definition build_url :: "params \<Rightarrow> string" where
  "build_url p =
     (let q0 = [];
          q1 = (case desc p of None \<Rightarrow> q0
                | Some d \<Rightarrow> q0 @ [(''desc'', if d then ''1'' else ''0'')]);
          q2 = (case limit p of None \<Rightarrow> q1
                | Some l \<Rightarrow> q1 @ [(''limit'', show_int l)]);
          qs = search_toString q2
      in ''/api/sentiment'' @ (if qs \<noteq> [] then ''?'' @ qs else []))"

text \<open>The \<^verbatim>\<open>try\<close> block, steps 1 to 5: \<open>Inl\<close> is a throw, caught below.\<close>

definition try_fetch :: "params \<Rightarrow> (string \<Rightarrow> fetch_outcome) \<Rightarrow> js_error + jsval" where
  "try_fetch p net =
     (case net (build_url p) of
        Rejected e \<Rightarrow> Inl e
      | Responded st b \<Rightarrow>
          if \<not> response_ok st then Inl (Error (''API Error: '' @ show_nat st))
          else (case b of Malformed e \<Rightarrow> Inl e | Json v \<Rightarrow> Inr v))"

text \<open>\<^verbatim>\<open>[...v]\<close> copies the elements of an iterable into a new array; \<^verbatim>\<open>v.slice(0, e)\<close>
  exists on arrays and strings.\<close>

fun spread_array :: "jsval \<Rightarrow> js_error + jsval list" where
  "spread_array (JArr xs) = Inr xs"
| "spread_array (JStr s) = Inr (map (\<lambda>c. JStr [c]) s)"
| "spread_array v = Inl (TypeError ''value is not iterable'')"

fun js_slice0 :: "jsval \<Rightarrow> int \<Rightarrow> js_error + jsval" where
  "js_slice0 (JArr xs) e = Inr (JArr (slice0 xs e))"
| "js_slice0 (JStr s) e = Inr (JStr (slice0 s e))"
| "js_slice0 v e = Inl (TypeError ''slice is not a function'')"

text \<open>
  The \<^verbatim>\<open>catch\<close> block: \<^verbatim>\<open>{...mockData, usedMockData: true}\<close>, then the reversed copy of
  \<^verbatim>\<open>data\<close> when \<^verbatim>\<open>params.desc\<close> is truthy, then \<^verbatim>\<open>slice(0, params.limit)\<close> when
  \<^verbatim>\<open>params.limit\<close> is truthy (defined and not zero).
\<close>

definition mock_fallback :: "params \<Rightarrow> js_error + jsval" where
  "mock_fallback p =
     (let result = AList.update ''usedMockData'' (JBool True) (own_props mockData)
      in case (if desc p = Some True
               then (case spread_array (read_prop (JObj result) ''data'') of
                       Inl e \<Rightarrow> Inl e
                     | Inr xs \<Rightarrow> Inr (AList.update ''data'' (JArr (rev xs)) result))
               else Inr result) of
           Inl e \<Rightarrow> Inl e
         | Inr result \<Rightarrow>
             (case limit p of
                Some l \<Rightarrow>
                  if l \<noteq> 0
                  then (case js_slice0 (read_prop (JObj result) ''data'') l of
                          Inl e \<Rightarrow> Inl e
                        | Inr d \<Rightarrow> Inr (JObj (AList.update ''data'' d result)))
                  else Inr (JObj result)
              | None \<Rightarrow> Inr (JObj result)))"

text \<open>
  The whole function. With \<^verbatim>\<open>null\<close> for \<^verbatim>\<open>params\<close>, \<^verbatim>\<open>params.desc\<close> throws in the \<^verbatim>\<open>try\<close>
  block and again in the \<^verbatim>\<open>catch\<close> block, so the promise is rejected.
\<close>

fun getSentimentData :: "arg \<Rightarrow> (string \<Rightarrow> fetch_outcome) \<Rightarrow> js_error + jsval" where
  "getSentimentData ArgNull net = Inl (TypeError ''Cannot read properties of null: desc'')"
| "getSentimentData ArgUndefined net =
     (case try_fetch \<lparr>desc = None, limit = None\<rparr> net of
        Inr v \<Rightarrow> Inr v
      | Inl e \<Rightarrow> mock_fallback \<lparr>desc = None, limit = None\<rparr>)"
| "getSentimentData (ArgObj p) net =
     (case try_fetch p net of
        Inr v \<Rightarrow> Inr v
      | Inl e \<Rightarrow> mock_fallback p)"

section \<open>The page: fetchCryptoData\<close>

text \<open>
  The callback of \<^verbatim>\<open>result.data.map\<close> (the tutorial's \<^verbatim>\<open>app/page.js\<close>; the page component
  shipped with the application has the same callback). \<open>assign\<close> writes the property
  definitions of an object literal, in order, over the properties spread before them.
\<close>

definition assign :: "(string \<times> jsval) list \<Rightarrow> (string \<times> jsval) list \<Rightarrow> (string \<times> jsval) list" where
  "assign defs obj = fold (\<lambda>(k, v). AList.update k v) defs obj"

definition normalize_coin :: "nat \<Rightarrow> jsval \<Rightarrow> jsval" where
  "normalize_coin index coin =
     JObj (assign
       [(''rank'', js_or (js_or (read_prop coin ''market_cap_rank'') (read_prop coin ''alt_rank''))
                     (JNum (of_nat index + 1))),
        (''sentiment'', js_coalesce (read_prop coin ''sentiment'') (JNum 0)),
        (''galaxy_score'', js_coalesce (read_prop coin ''galaxy_score'') (JNum 0)),
        (''percent_change_24h'', js_coalesce (read_prop coin ''percent_change_24h'') (JNum 0)),
        (''percent_change_7d'', js_coalesce (read_prop coin ''percent_change_7d'') (JNum 0)),
        (''volume_24h'', js_coalesce (read_prop coin ''volume_24h'') (JNum 0)),
        (''market_cap'', js_coalesce (read_prop coin ''market_cap'') (JNum 0)),
        (''price'', js_coalesce (read_prop coin ''price'') (JNum 0))]
       (own_props coin))"

text \<open>On an element that is \<^verbatim>\<open>null\<close> (or \<^verbatim>\<open>undefined\<close>) the callback throws at
  \<^verbatim>\<open>coin.market_cap_rank\<close>.\<close>

definition process_coin :: "nat \<Rightarrow> jsval \<Rightarrow> js_error + jsval" where
  "process_coin index coin =
     (if nullish coin
      then Inl (TypeError ''Cannot read properties of null or undefined: market_cap_rank'')
      else Inr (normalize_coin index coin))"

fun map_result :: "('a \<Rightarrow> 'e + 'b) \<Rightarrow> 'a list \<Rightarrow> 'e + 'b list" where
  "map_result f [] = Inr []"
| "map_result f (x # xs) =
     (case f x of
        Inl e \<Rightarrow> Inl e
      | Inr y \<Rightarrow> (case map_result f xs of Inl e \<Rightarrow> Inl e | Inr ys \<Rightarrow> Inr (y # ys)))"

text \<open>\<^verbatim>\<open>v.map(callback)\<close>: the callback gets each element and its index; anything but an
  array has no callable \<^verbatim>\<open>map\<close> here, and the call throws.\<close>

fun js_map :: "(nat \<Rightarrow> jsval \<Rightarrow> js_error + jsval) \<Rightarrow> jsval \<Rightarrow> js_error + jsval list" where
  "js_map f (JArr xs) = map_result (\<lambda>(i, x). f i x) (enumerate 0 xs)"
| "js_map f JUndefined = Inl (TypeError ''Cannot read properties of undefined: map'')"
| "js_map f JNull = Inl (TypeError ''Cannot read properties of null: map'')"
| "js_map f v = Inl (TypeError ''map is not a function'')"

text \<open>
  The state of the component: the \<^verbatim>\<open>useState\<close> cells that the data path reads or writes,
  and the calls of \<^verbatim>\<open>fetchCryptoData\<close> that are suspended at their \<^verbatim>\<open>await\<close>, each with
  the parameters its closure holds.
\<close>

record page =
  data :: "jsval list"
  loading :: bool
  error :: "string option"
  useMockData :: bool
  isDescending :: bool
  displayLimit :: int
  pending :: "params list"

definition initial_page :: page where
  "initial_page =
     \<lparr>data = [], loading = True, error = None, useMockData = False,
      isDescending = True, displayLimit = 30, pending = []\<rparr>"

text \<open>\<^verbatim>\<open>fetchCryptoData\<close> up to its \<^verbatim>\<open>await\<close>.\<close>

definition fetch_begin :: "page \<Rightarrow> page" where
  "fetch_begin s =
     s\<lparr>loading := True, error := None,
       pending := pending s @ [\<lparr>desc = Some (isDescending s), limit = Some (displayLimit s)\<rparr>]\<rparr>"

text \<open>The \<^verbatim>\<open>catch\<close> block of \<^verbatim>\<open>fetchCryptoData\<close>.\<close>

definition on_catch :: "page \<Rightarrow> page" where
  "on_catch s =
     s\<lparr>error := Some ''Failed to load data. Check your API token in .env.local.'',
       loading := False\<rparr>"

text \<open>
  \<^verbatim>\<open>fetchCryptoData\<close> from its \<^verbatim>\<open>await\<close> on, given what \<^verbatim>\<open>getSentimentData\<close> settled with.
  \<^verbatim>\<open>setUseMockData(true)\<close> has already run when a later statement of the \<^verbatim>\<open>try\<close> block
  throws.
\<close>

definition fetch_continue :: "js_error + jsval \<Rightarrow> page \<Rightarrow> page" where
  "fetch_continue r s =
     (case r of
        Inl e \<Rightarrow> on_catch s
      | Inr result \<Rightarrow>
          (case get_prop result ''usedMockData'' of
             Inl e \<Rightarrow> on_catch s
           | Inr flag \<Rightarrow>
               (let s1 = (if truthy flag then s\<lparr>useMockData := True\<rparr> else s)
                in case get_prop result ''data'' of
                     Inl e \<Rightarrow> on_catch s1
                   | Inr d \<Rightarrow>
                       (case js_map process_coin d of
                          Inl e \<Rightarrow> on_catch s1
                        | Inr processedData \<Rightarrow> s1\<lparr>data := processedData, loading := False\<rparr>))))"

text \<open>The \<open>k\<close>-th suspended call resumes, the network answering as \<open>net\<close> does.\<close>

definition fetch_resolve :: "(string \<Rightarrow> fetch_outcome) \<Rightarrow> nat \<Rightarrow> page \<Rightarrow> page" where
  "fetch_resolve net k s =
     (if k < length (pending s)
      then fetch_continue (getSentimentData (ArgObj (pending s ! k)) net)
             (s\<lparr>pending := take k (pending s) @ drop (Suc k) (pending s)\<rparr>)
      else s)"

text \<open>
  What happens to the component, one event at a time (JavaScript runs each to completion):
  it mounts and its effect calls \<^verbatim>\<open>fetchCryptoData\<close>; a selection changes \<^verbatim>\<open>displayLimit\<close> or
  \<^verbatim>\<open>isDescending\<close>, which gives \<^verbatim>\<open>fetchCryptoData\<close> a new closure and runs the effect again
  (a selection of the current value changes nothing); the Refresh button or the interval
  timer calls \<^verbatim>\<open>fetchCryptoData\<close>; a suspended call resumes.
\<close>

datatype event =
    Mount
  | SetDisplayLimit int
  | SetIsDescending bool
  | Refresh
  | Resolve nat "string \<Rightarrow> fetch_outcome"

fun step :: "event \<Rightarrow> page \<Rightarrow> page" where
  "step Mount s = fetch_begin s"
| "step (SetDisplayLimit n) s =
     (if n = displayLimit s then s else fetch_begin (s\<lparr>displayLimit := n\<rparr>))"
| "step (SetIsDescending b) s =
     (if b = isDescending s then s else fetch_begin (s\<lparr>isDescending := b\<rparr>))"
| "step Refresh s = fetch_begin s"
| "step (Resolve k net) s = fetch_resolve net k s"

definition run :: "event list \<Rightarrow> page \<Rightarrow> page" where
  "run evs s = fold step evs s"

section \<open>The fallback branch over a store\<close>

text \<open>
  \<^verbatim>\<open>mockData\<close> is one object of the module, shared by every call of \<^verbatim>\<open>getSentimentData\<close>,
  and JavaScript passes objects and arrays by reference: \<^verbatim>\<open>{...mockData}\<close> copies the
  reference to the \<^verbatim>\<open>data\<close> array, not the array. To say what a call may have written, the
  \<^verbatim>\<open>catch\<close> block is modelled a second time over a store of cells: an object cell maps
  names to values or references, an array cell holds the elements. The records and
  \<^verbatim>\<open>config\<close> are kept as values; the block does not reach into them.
\<close>

type_synonym addr = nat

datatype hval = Val jsval | Ref addr

datatype cell = ObjCell "(string \<times> hval) list" | ArrCell "jsval list"

record store =
  cells :: "addr \<rightharpoonup> cell"
  fresh :: addr

definition alloc :: "cell \<Rightarrow> store \<Rightarrow> addr \<times> store" where
  "alloc c h = (fresh h, h\<lparr>cells := (cells h)(fresh h \<mapsto> c), fresh := Suc (fresh h)\<rparr>)"

definition mockData_addr :: addr where
  "mockData_addr = 0"

definition mockData_data_addr :: addr where
  "mockData_data_addr = 1"

definition mockData_cell :: cell where
  "mockData_cell =
     ObjCell [(''config'', Val (JObj [(''generated'', JNum 1749002977)])),
       (''data'', Ref mockData_data_addr)]"

definition module_store :: store where
  "module_store =
     \<lparr>cells = [mockData_addr \<mapsto> mockData_cell, mockData_data_addr \<mapsto> ArrCell mockData_data],
      fresh = 2\<rparr>"

text \<open>
  The operations of the block. Each is \<open>None\<close> where JavaScript would throw (no such
  cell, or a cell of the wrong kind).
  \<^verbatim>\<open>{...a, name: v}\<close> makes a new object; \<^verbatim>\<open>a.name\<close> reads a reference; \<^verbatim>\<open>[...a]\<close> makes a
  new array with the elements of \<open>a\<close>; \<^verbatim>\<open>a.reverse()\<close> reverses the array \<open>a\<close> in place;
  \<^verbatim>\<open>a.slice(0, e)\<close> makes a new array.
\<close>

definition spread_object :: "addr \<Rightarrow> string \<Rightarrow> hval \<Rightarrow> store \<Rightarrow> (addr \<times> store) option" where
  "spread_object a name v h =
     (case cells h a of
        Some (ObjCell kvs) \<Rightarrow> Some (alloc (ObjCell (AList.update name v kvs)) h)
      | _ \<Rightarrow> None)"

definition field_ref :: "addr \<Rightarrow> string \<Rightarrow> store \<Rightarrow> addr option" where
  "field_ref a name h =
     (case cells h a of
        Some (ObjCell kvs) \<Rightarrow> (case map_of kvs name of Some (Ref r) \<Rightarrow> Some r | _ \<Rightarrow> None)
      | _ \<Rightarrow> None)"

definition spread_array_h :: "addr \<Rightarrow> store \<Rightarrow> (addr \<times> store) option" where
  "spread_array_h a h =
     (case cells h a of Some (ArrCell xs) \<Rightarrow> Some (alloc (ArrCell xs) h) | _ \<Rightarrow> None)"

definition reverse_h :: "addr \<Rightarrow> store \<Rightarrow> store option" where
  "reverse_h a h =
     (case cells h a of
        Some (ArrCell xs) \<Rightarrow> Some (h\<lparr>cells := (cells h)(a \<mapsto> ArrCell (rev xs))\<rparr>)
      | _ \<Rightarrow> None)"

definition slice_h :: "addr \<Rightarrow> int \<Rightarrow> store \<Rightarrow> (addr \<times> store) option" where
  "slice_h a e h =
     (case cells h a of
        Some (ArrCell xs) \<Rightarrow> Some (alloc (ArrCell (slice0 xs e)) h)
      | _ \<Rightarrow> None)"

text \<open>The \<^verbatim>\<open>catch\<close> block, statement by statement; it returns the address of \<^verbatim>\<open>result\<close>.\<close>

definition fallback_h :: "params \<Rightarrow> store \<Rightarrow> (addr \<times> store) option" where
  "fallback_h p h0 =
     do {
       (result, h1) \<leftarrow> spread_object mockData_addr ''usedMockData'' (Val (JBool True)) h0;
       (result, h2) \<leftarrow>
         (if desc p = Some True
          then do {
            d \<leftarrow> field_ref result ''data'' h1;
            (c, h) \<leftarrow> spread_array_h d h1;
            h \<leftarrow> reverse_h c h;
            spread_object result ''data'' (Ref c) h
          }
          else Some (result, h1));
       (case limit p of
          Some l \<Rightarrow>
            if l \<noteq> 0
            then do {
              d \<leftarrow> field_ref result ''data'' h2;
              (c, h) \<leftarrow> slice_h d l h2;
              spread_object result ''data'' (Ref c) h
            }
            else Some (result, h2)
        | None \<Rightarrow> Some (result, h2))
     }"

text \<open>One call after the other, on the same store.\<close>

fun run_fallbacks :: "params list \<Rightarrow> store \<Rightarrow> store option" where
  "run_fallbacks [] h = Some h"
| "run_fallbacks (p # ps) h =
     (case fallback_h p h of None \<Rightarrow> None | Some (r, h') \<Rightarrow> run_fallbacks ps h')"

text \<open>The sample dataset is where the module put it, and new cells do not land on it.\<close>

definition sample_intact :: "store \<Rightarrow> bool" where
  "sample_intact h =
     (cells h mockData_addr = Some mockData_cell
      \<and> cells h mockData_data_addr = Some (ArrCell mockData_data)
      \<and> 2 \<le> fresh h)"


section \<open>The proxy endpoint: GET\<close>

text \<open>
  \<^verbatim>\<open>app/api/sentiment/route.js\<close> with the constants of \<^verbatim>\<open>app/constants/index.js\<close>.
  \<^verbatim>\<open>API_TOKEN\<close> is the environment variable, absent (\<open>None\<close>) or a string. The request is
  given by the name-value pairs of its query string; \<^verbatim>\<open>searchParams.get\<close> returns the
  first value under a name, or \<^verbatim>\<open>null\<close>. \<^verbatim>\<open>parseInt\<close> and the conversion of its result to
  text belong to the platform: the handler is modelled for any function \<open>parseInt_text\<close>
  that gives the text of \<^verbatim>\<open>parseInt(v)\<close>. The upstream answers a URL and its headers with
  an outcome of \<^verbatim>\<open>fetch\<close>.
\<close>

definition BASE_URL :: string where
  "BASE_URL = ''https://lunarcrush.com/api4/public/''"

definition DEFAULT_LIMIT :: nat where
  "DEFAULT_LIMIT = 30"

record http_response =
  status :: nat
  json :: jsval

type_synonym upstream = "string \<Rightarrow> (string \<times> string) list \<Rightarrow> fetch_outcome"

text \<open>\<^verbatim>\<open>text.includes(pattern)\<close>: the pattern occurs in the text at some position.\<close>

fun js_includes :: "string \<Rightarrow> string \<Rightarrow> bool" where
  "js_includes [] pat = (pat = [])"
| "js_includes (c # cs) pat = (prefix pat (c # cs) \<or> js_includes cs pat)"

text \<open>Step 2: \<^verbatim>\<open>desc\<close> is 1 when the parameter is the string \<^verbatim>\<open>'1'\<close>, else 0; \<^verbatim>\<open>limit\<close> is
  parsed from a non-empty parameter, else the default.\<close>

definition desc_flag :: "(string \<times> string) list \<Rightarrow> nat" where
  "desc_flag q = (if map_of q ''desc'' = Some ''1'' then 1 else 0)"

definition limit_text :: "(string \<Rightarrow> string) \<Rightarrow> (string \<times> string) list \<Rightarrow> string" where
  "limit_text parseInt_text q =
     (case map_of q ''limit'' of
        Some v \<Rightarrow> if v \<noteq> [] then parseInt_text v else show_nat DEFAULT_LIMIT
      | None \<Rightarrow> show_nat DEFAULT_LIMIT)"

text \<open>Step 3: the URL of the upstream request; step 4: its headers.\<close>

definition api_url :: "(string \<Rightarrow> string) \<Rightarrow> (string \<times> string) list \<Rightarrow> string" where
  "api_url parseInt_text q =
     BASE_URL @ ''coins/list/v1?sort=sentiment&limit='' @ limit_text parseInt_text q
       @ (if desc_flag q \<noteq> 0 then ''&desc=1'' else [])"

definition api_headers :: "string \<Rightarrow> (string \<times> string) list" where
  "api_headers token =
     [(''Authorization'', ''Bearer '' @ token), (''Content-Type'', ''application/json'')]"

text \<open>The \<^verbatim>\<open>try\<close> block: what it returns or throws, and the upstream requests it has made.\<close>

definition GET_try ::
  "string option \<Rightarrow> (string \<Rightarrow> string) \<Rightarrow> upstream \<Rightarrow> (string \<times> string) list
     \<Rightarrow> (js_error + jsval) \<times> (string \<times> (string \<times> string) list) list" where
  "GET_try API_TOKEN parseInt_text net q =
     (case API_TOKEN of
        None \<Rightarrow>
          (Inl (Error ''API_TOKEN is missing. Please set LUNARCRUSH_API_TOKEN in .env.local''), [])
      | Some token \<Rightarrow>
          if token = []
          then (Inl (Error ''API_TOKEN is missing. Please set LUNARCRUSH_API_TOKEN in .env.local''), [])
          else
            (let apiUrl = api_url parseInt_text q;
                 headers = api_headers token
             in (case net apiUrl headers of
                   Rejected e \<Rightarrow> Inl e
                 | Responded st b \<Rightarrow>
                     if \<not> response_ok st then Inl (Error (''API Error: '' @ show_nat st))
                     else (case b of Malformed e \<Rightarrow> Inl e | Json v \<Rightarrow> Inr v),
                 [(apiUrl, headers)])))"

text \<open>The handler: the data with status 200, or the \<^verbatim>\<open>catch\<close> block's error response.\<close>

definition GET ::
  "string option \<Rightarrow> (string \<Rightarrow> string) \<Rightarrow> upstream \<Rightarrow> (string \<times> string) list
     \<Rightarrow> http_response \<times> (string \<times> (string \<times> string) list) list" where
  "GET API_TOKEN parseInt_text net q =
     (case GET_try API_TOKEN parseInt_text net q of
        (Inr v, calls) \<Rightarrow> (\<lparr>status = 200, json = v\<rparr>, calls)
      | (Inl err, calls) \<Rightarrow>
          (let errorMessage =
                 (if js_includes (message err) ''API_TOKEN is missing''
                  then ''Missing API key. Please set LUNARCRUSH_API_TOKEN in .env.local''
                  else ''Failed to fetch data'')
           in (\<lparr>status = 500, json = JObj [(''error'', JStr errorMessage)]\<rparr>, calls)))"


section \<open>Notions for stating the properties\<close>

text \<open>A field is present and truthy in a record.\<close>

definition present_truthy :: "(string \<times> jsval) list \<Rightarrow> string \<Rightarrow> bool" where
  "present_truthy kvs name = (case map_of kvs name of Some v \<Rightarrow> truthy v | None \<Rightarrow> False)"

text \<open>The rank the specification gives the record at index \<open>i\<close>: \<^verbatim>\<open>market_cap_rank\<close> if present
  and truthy, else \<^verbatim>\<open>alt_rank\<close> if present and truthy, else the index plus one.\<close>

definition spec_rank :: "nat \<Rightarrow> (string \<times> jsval) list \<Rightarrow> jsval" where
  "spec_rank i kvs =
     (if present_truthy kvs ''market_cap_rank'' then read_prop (JObj kvs) ''market_cap_rank''
      else if present_truthy kvs ''alt_rank'' then read_prop (JObj kvs) ''alt_rank''
      else JNum (of_nat i + 1))"

text \<open>The fields that normalisation defaults to zero.\<close>

definition numeric_fields :: "string list" where
  "numeric_fields =
     [''sentiment'', ''galaxy_score'', ''percent_change_24h'', ''percent_change_7d'',
      ''volume_24h'', ''market_cap'', ''price'']"

text \<open>The fetch did not deliver a document: the request was rejected, the status is not a
  success status (the proxy's error response has status 500), or the body is not JSON.\<close>

fun failed :: "fetch_outcome \<Rightarrow> bool" where
  "failed (Rejected e) = True"
| "failed (Responded st (Malformed e)) = True"
| "failed (Responded st (Json v)) = (\<not> response_ok st)"

text \<open>The \<^verbatim>\<open>data\<close> array that the \<^verbatim>\<open>catch\<close> block of \<^verbatim>\<open>getSentimentData\<close> leaves in its result.\<close>

definition fallback_data :: "params \<Rightarrow> jsval list" where
  "fallback_data p =
     (let xs = (if desc p = Some True then rev mockData_data else mockData_data)
      in case limit p of
           Some l \<Rightarrow> if l \<noteq> 0 then slice0 xs l else xs
         | None \<Rightarrow> xs)"

text \<open>The envelope that \<^verbatim>\<open>getSentimentData\<close> returns around an array of sample records.\<close>

definition mock_envelope :: "jsval list \<Rightarrow> jsval" where
  "mock_envelope xs =
     JObj [(''config'', JObj [(''generated'', JNum 1749002977)]),
       (''data'', JArr xs),
       (''usedMockData'', JBool True)]"

text \<open>The emulation as the specification words it: reverse when descending is asked for,
  then truncate with the limit passed as it is.\<close>

definition spec_emulate :: "jsval list \<Rightarrow> params \<Rightarrow> int \<Rightarrow> jsval list" where
  "spec_emulate base p l = slice0 (if desc p = Some True then rev base else base) l"

text \<open>A gateway that answers 200 with one record per limit, and one that answers 200 with
  the empty object.\<close>

definition coin_A :: jsval where
  "coin_A = JObj [(''symbol'', JStr ''A''), (''market_cap_rank'', JNum 1)]"

definition coin_B :: jsval where
  "coin_B = JObj [(''symbol'', JStr ''B''), (''market_cap_rank'', JNum 2)]"

definition two_answers :: "string \<Rightarrow> fetch_outcome" where
  "two_answers url =
     (if url = ''/api/sentiment?desc=1&limit=10''
      then Responded 200 (Json (JObj [(''data'', JArr [coin_A])]))
      else Responded 200 (Json (JObj [(''data'', JArr [coin_B])])))"

definition empty_object_answer :: "string \<Rightarrow> fetch_outcome" where
  "empty_object_answer url = Responded 200 (Json (JObj []))"

text \<open>Fetch A with limit 10 and fetch B with limit 20 are both suspended; B resumes first,
  then A.\<close>

definition overlapping_fetches :: "event list" where
  "overlapping_fetches =
     [Mount, Resolve 0 two_answers,
      SetDisplayLimit 10, SetDisplayLimit 20,
      Resolve 1 two_answers, Resolve 0 two_answers]"

text \<open>A page that shows a record, refreshed against the gateway that answers with the empty
  object.\<close>

definition shape_error_run :: "event list" where
  "shape_error_run = [Mount, Resolve 0 two_answers, Refresh, Resolve 0 empty_object_answer]"

text \<open>The credential is missing: the variable is unset or empty.\<close>

definition token_missing :: "string option \<Rightarrow> bool" where
  "token_missing t = (t = None \<or> t = Some [])"

text \<open>The query without its \<^verbatim>\<open>desc\<close> parameters.\<close>

definition without_desc :: "(string \<times> string) list \<Rightarrow> (string \<times> string) list" where
  "without_desc q = filter (\<lambda>(k, v). k \<noteq> ''desc'') q"


section \<open>Properties of the normalisation\<close>

lemma map_result_length: "map_result f xs = Inr ys \<Longrightarrow> length ys = length xs"
  by (induction xs arbitrary: ys) (auto split: sum.splits)

lemma map_result_nth:
  "map_result f xs = Inr ys \<Longrightarrow> i < length xs \<Longrightarrow> f (xs ! i) = Inr (ys ! i)"
proof (induction xs arbitrary: ys i)
  case Nil
  then show ?case by simp
next
  case (Cons x xs)
  then show ?case by (cases i) (auto split: sum.splits)
qed

lemma map_result_total:
  "(\<And>x. x \<in> set xs \<Longrightarrow> f x = Inr (g x)) \<Longrightarrow> map_result f xs = Inr (map g xs)"
  by (induction xs) auto

lemma js_map_nth:
  assumes "js_map f (JArr xs) = Inr ys" and "i < length xs"
  shows "f i (xs ! i) = Inr (ys ! i)"
proof -
  from assms(1) have m: "map_result (\<lambda>(i, x). f i x) (enumerate 0 xs) = Inr ys" by simp
  have "i < length (enumerate 0 xs)" using assms(2) by simp
  from map_result_nth [OF m this] show ?thesis
    using assms(2) by (simp add: nth_enumerate_eq)
qed

lemma js_map_records:
  assumes "\<And>c. c \<in> set xs \<Longrightarrow> \<not> nullish c"
  shows "js_map process_coin (JArr xs) = Inr (map (\<lambda>(i, c). normalize_coin i c) (enumerate 0 xs))"
proof -
  have "map_result (\<lambda>(i, x). process_coin i x) (enumerate 0 xs)
          = Inr (map (\<lambda>(i, c). normalize_coin i c) (enumerate 0 xs))"
  proof (rule map_result_total)
    fix x assume mem: "x \<in> set (enumerate 0 xs)"
    obtain i c where x: "x = (i, c)" by (cases x) auto
    from mem x have "c \<in> set xs"
      by (auto simp: enumerate_eq_zip dest: set_zip_rightD)
    then have "\<not> nullish c" by (rule assms)
    with x show "(case x of (i, x) \<Rightarrow> process_coin i x) = Inr (case x of (i, c) \<Rightarrow> normalize_coin i c)"
      by (simp add: process_coin_def)
  qed
  then show ?thesis by simp
qed

lemma read_prop_rank:
  "read_prop (normalize_coin i coin) ''rank'' =
     js_or (js_or (read_prop coin ''market_cap_rank'') (read_prop coin ''alt_rank''))
       (JNum (of_nat i + 1))"
  by (simp add: normalize_coin_def assign_def read_prop_def update_conv')

lemma js_or_chain:
  "js_or (js_or (read_prop (JObj kvs) ''market_cap_rank'') (read_prop (JObj kvs) ''alt_rank'')) d
     = (if present_truthy kvs ''market_cap_rank'' then read_prop (JObj kvs) ''market_cap_rank''
        else if present_truthy kvs ''alt_rank'' then read_prop (JObj kvs) ''alt_rank'' else d)"
  by (auto simp: js_or_def present_truthy_def read_prop_def split: option.splits)

lemma read_prop_field:
  "name \<in> set numeric_fields \<Longrightarrow>
   read_prop (normalize_coin i coin) name = js_coalesce (read_prop coin name) (JNum 0)"
  by (auto simp: numeric_fields_def normalize_coin_def assign_def read_prop_def update_conv')

text \<open>
  C2. Where the mapping of the result sequence succeeds, the record at index \<open>i\<close> gets as
  its rank the value of \<^verbatim>\<open>market_cap_rank\<close> if that field is present and truthy, else the
  value of \<^verbatim>\<open>alt_rank\<close> if that is present and truthy, else \<open>i + 1\<close>. The rank is a function
  of the record and its index alone: no other record of the sequence enters it.
\<close>

theorem rank_fallback_chain:
  assumes "js_map process_coin (JArr xs) = Inr ys" and "i < length xs" and "xs ! i = JObj kvs"
  shows "read_prop (ys ! i) ''rank'' = spec_rank i kvs"
proof -
  from js_map_nth [OF assms(1,2)] assms(3)
  have "ys ! i = normalize_coin i (JObj kvs)" by (simp add: process_coin_def)
  then show ?thesis by (simp add: read_prop_rank js_or_chain spec_rank_def)
qed

text \<open>
  The three records of the specification at index 2, behind two other records: ranks
  5 and 9 give 5; ranks 0 and 9 give 9, zero being falsy; rank 0 and no \<^verbatim>\<open>alt_rank\<close> give 3.
\<close>

theorem rank_fallback_chain_witness:
  "read_prop (normalize_coin 2 (JObj [(''market_cap_rank'', JNum 5), (''alt_rank'', JNum 9)])) ''rank''
     = JNum 5
   \<and> read_prop (normalize_coin 2 (JObj [(''market_cap_rank'', JNum 0), (''alt_rank'', JNum 9)])) ''rank''
     = JNum 9
   \<and> read_prop (normalize_coin 2 (JObj [(''market_cap_rank'', JNum 0)])) ''rank'' = JNum 3"
proof -
  let ?a = "JObj [(''market_cap_rank'', JNum 5), (''alt_rank'', JNum 9)]"
  let ?b = "JObj [(''market_cap_rank'', JNum 0), (''alt_rank'', JNum 9)]"
  let ?c = "JObj [(''market_cap_rank'', JNum 0)]"
  have m: "js_map process_coin (JArr [x, y, JObj kvs])
        = Inr [normalize_coin 0 (JObj []), normalize_coin 1 (JObj []), normalize_coin 2 (JObj kvs)]"
    if "x = JObj []" and "y = JObj []" for x y kvs
    using that by (simp add: process_coin_def enumerate_eq_zip upt_rec numeral_2_eq_2)
  have l: "2 < length [JObj [], JObj [], z]" for z :: jsval by simp
  have n: "[JObj [], JObj [], JObj kvs] ! 2 = JObj kvs" for kvs by simp
  have "read_prop ([u, v, w] ! 2) ''rank'' = read_prop w ''rank''" for u v w :: jsval by simp
  then show ?thesis
    using rank_fallback_chain [OF m [OF refl refl] l n, of "[(''market_cap_rank'', JNum 5), (''alt_rank'', JNum 9)]"]
      rank_fallback_chain [OF m [OF refl refl] l n, of "[(''market_cap_rank'', JNum 0), (''alt_rank'', JNum 9)]"]
      rank_fallback_chain [OF m [OF refl refl] l n, of "[(''market_cap_rank'', JNum 0)]"]
    by (simp add: spec_rank_def present_truthy_def read_prop_def)
qed

text \<open>
  C3. For each of the seven numeric fields, a record in which the field is absent or
  \<^verbatim>\<open>null\<close> has the number 0 there after normalisation, and a record that has a number
  there, zero included, keeps it.
\<close>

theorem normalization_total:
  assumes "js_map process_coin (JArr xs) = Inr ys" and "i < length xs" and "xs ! i = JObj kvs"
    and "name \<in> set numeric_fields"
  shows "(map_of kvs name = None \<or> map_of kvs name = Some JNull
            \<longrightarrow> read_prop (ys ! i) name = JNum 0)
         \<and> (map_of kvs name = Some (JNum n) \<longrightarrow> read_prop (ys ! i) name = JNum n)"
proof -
  from js_map_nth [OF assms(1,2)] assms(3)
  have "ys ! i = normalize_coin i (JObj kvs)" by (simp add: process_coin_def)
  then have "read_prop (ys ! i) name = js_coalesce (read_prop (JObj kvs) name) (JNum 0)"
    using assms(4) by (simp add: read_prop_field)
  then show ?thesis by (auto simp: js_coalesce_def read_prop_def)
qed

theorem normalization_total_witness:
  "read_prop (normalize_coin 0 (JObj [(''price'', JNull), (''sentiment'', JNum 0)])) ''price'' = JNum 0
   \<and> read_prop (normalize_coin 0 (JObj [(''price'', JNull), (''sentiment'', JNum 0)])) ''market_cap''
       = JNum 0
   \<and> read_prop (normalize_coin 0 (JObj [(''price'', JNull), (''sentiment'', JNum 7)])) ''sentiment''
       = JNum 7"
proof -
  let ?kvs = "[(''price'', JNull), (''sentiment'', JNum 0)]"
  let ?kvs' = "[(''price'', JNull), (''sentiment'', JNum 7)]"
  have m: "js_map process_coin (JArr [JObj kvs]) = Inr [normalize_coin 0 (JObj kvs)]" for kvs
    by (simp add: process_coin_def enumerate_eq_zip)
  have l: "0 < length [JObj kvs]" for kvs by simp
  have n: "[JObj kvs] ! 0 = JObj kvs" for kvs by simp
  have f: "''price'' \<in> set numeric_fields" "''market_cap'' \<in> set numeric_fields"
    "''sentiment'' \<in> set numeric_fields"
    by (simp_all add: numeric_fields_def)
  show ?thesis
    using normalization_total [OF m l n f(1), of ?kvs 0]
      normalization_total [OF m l n f(2), of ?kvs 0]
      normalization_total [OF m l n f(3), of ?kvs' 7]
    by simp
qed


section \<open>Properties of the service\<close>

lemma mock_fallback_value: "mock_fallback p = Inr (mock_envelope (fallback_data p))"
  by (cases "desc p = Some True"; cases "limit p")
     (simp_all add: mock_fallback_def mockData_def read_prop_def fallback_data_def
        mock_envelope_def)

lemma mock_records: "c \<in> set mockData_data \<Longrightarrow> \<not> nullish c"
  by (auto simp: mockData_data_def mock_ETP_def mock_XMX_def mock_META_def mock_BTC_def
      mock_ETH_def)

lemma set_slice0: "set (slice0 xs e) \<subseteq> set xs"
  by (simp add: slice0_def Let_def set_take_subset)

lemma set_fallback_data: "set (fallback_data p) \<subseteq> set mockData_data"
  using set_slice0 [of "rev mockData_data"] set_slice0 [of mockData_data]
  by (auto simp: fallback_data_def Let_def split: option.splits)

lemma try_fetch_failed: "failed (net (build_url p)) \<Longrightarrow> \<exists>e. try_fetch p net = Inl e"
  by (cases "net (build_url p)" rule: failed.cases) (auto simp: try_fetch_def)

lemma getSentimentData_failed:
  "failed (net (build_url p)) \<Longrightarrow>
   getSentimentData (ArgObj p) net = Inr (mock_envelope (fallback_data p))"
  using try_fetch_failed [of net p] by (auto simp: mock_fallback_value)

lemma slice0_nonneg: "0 \<le> e \<Longrightarrow> slice0 xs e = take (nat e) xs"
  by (auto simp: slice0_def Let_def min_def)

lemma fetch_continue_mock:
  assumes "set xs \<subseteq> set mockData_data"
  shows "fetch_continue (Inr (mock_envelope xs)) s =
           s\<lparr>useMockData := True,
             data := map (\<lambda>(i, c). normalize_coin i c) (enumerate 0 xs), loading := False\<rparr>"
proof -
  have "\<And>c. c \<in> set xs \<Longrightarrow> \<not> nullish c" using assms mock_records by blast
  then have "js_map process_coin (JArr xs)
      = Inr (map (\<lambda>(i, c). normalize_coin i c) (enumerate 0 xs))"
    by (rule js_map_records)
  then show ?thesis
    by (simp add: fetch_continue_def mock_envelope_def get_prop_def read_prop_def)
qed

text \<open>
  C1. Called with a parameter object, \<^verbatim>\<open>getSentimentData\<close> never throws. When the fetch
  fails (rejected request, status outside 200 to 299, body that is not JSON) it returns the
  sample dataset's envelope with \<^verbatim>\<open>usedMockData: true\<close>, every record of which is a sample
  record; the page then sets its mock flag and shows the records, and its error stays as it
  was.
\<close>

theorem getSentimentData_never_raises:
  "getSentimentData (ArgObj p) net \<noteq> Inl e
   \<and> (failed (net (build_url p)) \<longrightarrow>
        getSentimentData (ArgObj p) net = Inr (mock_envelope (fallback_data p))
        \<and> set (fallback_data p) \<subseteq> set mockData_data
        \<and> useMockData (fetch_continue (getSentimentData (ArgObj p) net) s) = True
        \<and> error (fetch_continue (getSentimentData (ArgObj p) net) s) = error s)"
proof -
  have "getSentimentData (ArgObj p) net \<noteq> Inl e"
    by (cases "try_fetch p net") (simp_all add: mock_fallback_value)
  moreover have "failed (net (build_url p)) \<longrightarrow>
        getSentimentData (ArgObj p) net = Inr (mock_envelope (fallback_data p))
        \<and> set (fallback_data p) \<subseteq> set mockData_data
        \<and> useMockData (fetch_continue (getSentimentData (ArgObj p) net) s) = True
        \<and> error (fetch_continue (getSentimentData (ArgObj p) net) s) = error s"
    using set_fallback_data [of p]
    by (simp add: getSentimentData_failed fetch_continue_mock del: getSentimentData.simps)
  ultimately show ?thesis by blast
qed

text \<open>The proxy's error response, status 500 with \<^verbatim>\<open>{ error: ... }\<close>, for the default
  parameters of the page.\<close>

theorem getSentimentData_never_raises_witness:
  "getSentimentData (ArgObj \<lparr>desc = Some False, limit = Some 30\<rparr>)
       (\<lambda>url. Responded 500 (Json (JObj [(''error'', JStr ''Failed to fetch data'')])))
     = Inr (mock_envelope mockData_data)"
proof -
  let ?net = "\<lambda>url :: string. Responded 500 (Json (JObj [(''error'', JStr ''Failed to fetch data'')]))"
  let ?p = "\<lparr>desc = Some False, limit = Some 30\<rparr>"
  have f: "failed (?net (build_url ?p))" by (simp add: response_ok_def)
  have d: "fallback_data ?p = mockData_data"
    by (simp add: fallback_data_def slice0_def mockData_data_def)
  from getSentimentData_never_raises [of ?p ?net undefined initial_page] f d
  show ?thesis by (simp del: getSentimentData.simps)
qed

text \<open>
  C4. On the fallback path with descending order and a positive limit, the result holds
  the first \<open>limit\<close> records of the reversed sample dataset, and the page shows each of
  them normalised at its index: reversal comes before truncation.
\<close>

theorem fallback_reverse_then_truncate:
  assumes "failed (net (build_url p))" and "desc p = Some True" and "limit p = Some l"
    and "0 < l"
  shows "getSentimentData (ArgObj p) net
           = Inr (mock_envelope (take (nat l) (rev mockData_data)))
         \<and> data (fetch_continue (getSentimentData (ArgObj p) net) s)
           = map (\<lambda>(i, c). normalize_coin i c) (enumerate 0 (take (nat l) (rev mockData_data)))"
proof -
  have d: "fallback_data p = take (nat l) (rev mockData_data)"
    using assms(2-4) by (simp add: fallback_data_def slice0_nonneg)
  have "set (take (nat l) (rev mockData_data)) \<subseteq> set mockData_data"
    using set_take_subset [of "nat l" "rev mockData_data"] by simp
  then show ?thesis
    using assms(1)
    by (simp add: getSentimentData_failed d fetch_continue_mock del: getSentimentData.simps)
qed

theorem fallback_reverse_then_truncate_witness:
  "getSentimentData (ArgObj \<lparr>desc = Some True, limit = Some 3\<rparr>) (\<lambda>url. Rejected (TypeError ''Failed to fetch''))
     = Inr (mock_envelope [mock_ETH, mock_BTC, mock_META])
   \<and> data (fetch_continue
        (getSentimentData (ArgObj \<lparr>desc = Some True, limit = Some 3\<rparr>)
           (\<lambda>url. Rejected (TypeError ''Failed to fetch''))) initial_page)
     = [normalize_coin 0 mock_ETH, normalize_coin 1 mock_BTC, normalize_coin 2 mock_META]"
proof -
  let ?net = "\<lambda>url :: string. Rejected (TypeError ''Failed to fetch'')"
  let ?p = "\<lparr>desc = Some True, limit = Some 3\<rparr>"
  have f: "failed (?net (build_url ?p))" by simp
  have t: "take (nat 3) (rev mockData_data) = [mock_ETH, mock_BTC, mock_META]"
    by (simp add: mockData_data_def)
  have e: "enumerate 0 [a, b, c] = [(0, a), (1, b), (2, c)]" for a b c :: jsval
    by (simp add: enumerate_eq_zip upt_rec numeral_2_eq_2)
  have th: "getSentimentData (ArgObj ?p) ?net
           = Inr (mock_envelope (take (nat 3) (rev mockData_data)))
         \<and> data (fetch_continue (getSentimentData (ArgObj ?p) ?net) initial_page)
           = map (\<lambda>(i, c). normalize_coin i c) (enumerate 0 (take (nat 3) (rev mockData_data)))"
    by (rule fallback_reverse_then_truncate [OF f]) simp_all
  from th [THEN conjunct1] th [THEN conjunct2] t e
  show ?thesis by (simp add: numeral_2_eq_2 del: getSentimentData.simps)
qed


lemma build_url_limit:
  "limit p = Some l \<Longrightarrow> \<bar>l\<bar> < 10 ^ 21 \<Longrightarrow>
   build_url p =
     ''/api/sentiment?''
       @ (case desc p of None \<Rightarrow> [] | Some d \<Rightarrow> ''desc='' @ (if d then ''1'' else ''0'') @ ''&'')
       @ ''limit='' @ show_int l"
  by (cases "desc p") (simp_all add: build_url_def)

lemma negative_limit_sliced:
  "limit p = Some l \<Longrightarrow> l < 0 \<Longrightarrow>
   mock_fallback p = Inr (mock_envelope (spec_emulate mockData_data p l))"
  by (simp add: mock_fallback_value fallback_data_def spec_emulate_def)

text \<open>
  C6. A limit of zero is to pass unmodified to the live request and to the fallback
  truncation. The \<^verbatim>\<open>try\<close> block does so: its test is \<^verbatim>\<open>params.limit !== undefined\<close>, and
  the request carries \<^verbatim>\<open>limit=0\<close>. The \<^verbatim>\<open>catch\<close> block does not: its test is
  \<^verbatim>\<open>if (params.limit)\<close>, which is false for 0, so \<^verbatim>\<open>slice\<close> is never called and all five
  sample records come back, where the truncation with limit 0 gives none.
\<close>

theorem limit_zero_not_truncated:
  "build_url \<lparr>desc = Some False, limit = Some 0\<rparr> = ''/api/sentiment?desc=0&limit=0''
   \<and> mock_fallback \<lparr>desc = Some False, limit = Some 0\<rparr> = Inr (mock_envelope mockData_data)
   \<and> length mockData_data = 5
   \<and> spec_emulate mockData_data \<lparr>desc = Some False, limit = Some 0\<rparr> 0 = []
   \<and> mock_fallback \<lparr>desc = Some False, limit = Some 0\<rparr>
       \<noteq> Inr (mock_envelope (spec_emulate mockData_data \<lparr>desc = Some False, limit = Some 0\<rparr> 0))"
proof -
  have u: "build_url \<lparr>desc = Some False, limit = Some 0\<rparr> = ''/api/sentiment?desc=0&limit=0''"
    by (simp add: build_url_def show_int_def show_nat.simps digit_char_def)
  have f: "mock_fallback \<lparr>desc = Some False, limit = Some 0\<rparr> = Inr (mock_envelope mockData_data)"
    by (simp add: mock_fallback_value fallback_data_def)
  have e: "spec_emulate mockData_data \<lparr>desc = Some False, limit = Some 0\<rparr> 0 = []"
    by (simp add: spec_emulate_def slice0_def)
  have n: "length mockData_data = 5" by (simp add: mockData_data_def)
  then have "mockData_data \<noteq> []" by auto
  with u f e n show ?thesis by (simp add: mock_envelope_def)
qed

section \<open>Properties of the page\<close>

lemma run_shape_error:
  "run shape_error_run initial_page =
     \<lparr>data = [normalize_coin 0 coin_B], loading = False,
      error = Some ''Failed to load data. Check your API token in .env.local.'',
      useMockData = False, isDescending = True, displayLimit = 30, pending = []\<rparr>"
  by (simp add: run_def shape_error_run_def initial_page_def fetch_begin_def fetch_resolve_def
      fetch_continue_def try_fetch_def build_url_def show_int_def show_nat.simps digit_char_def
      two_answers_def empty_object_answer_def response_ok_def get_prop_def read_prop_def
      process_coin_def on_catch_def coin_B_def enumerate_eq_zip)

text \<open>
  C5, as stated, fails: the gateway answers 200 with \<^verbatim>\<open>{}\<close> to a refresh of a page that
  shows a record. \<^verbatim>\<open>result.data.map\<close> throws, the \<^verbatim>\<open>catch\<close> block of \<^verbatim>\<open>fetchCryptoData\<close>
  sets the error message, and the records stay as they were: they are not empty.
\<close>

theorem shape_error_sets_error:
  "data (run shape_error_run initial_page) = [normalize_coin 0 coin_B]
   \<and> data (run shape_error_run initial_page) \<noteq> []
   \<and> error (run shape_error_run initial_page)
       = Some ''Failed to load data. Check your API token in .env.local.''"
  by (simp add: run_shape_error)

text \<open>
  C5, amended. When the gateway answers with a success status and an object that has
  no \<^verbatim>\<open>data\<close>, \<^verbatim>\<open>getSentimentData\<close> returns that object, not the sample dataset; the page
  catches the TypeError, sets its error message, clears \<^verbatim>\<open>loading\<close> and keeps the records it
  had; the mock flag is raised only by a truthy \<^verbatim>\<open>usedMockData\<close> in the body itself.
\<close>

theorem shape_error_caught:
  assumes "k < length (pending s)"
    and "net (build_url (pending s ! k)) = Responded st (Json (JObj kvs))"
    and "response_ok st" and "map_of kvs ''data'' = None"
  shows "getSentimentData (ArgObj (pending s ! k)) net = Inr (JObj kvs)
         \<and> data (fetch_resolve net k s) = data s
         \<and> error (fetch_resolve net k s)
             = Some ''Failed to load data. Check your API token in .env.local.''
         \<and> loading (fetch_resolve net k s) = False
         \<and> useMockData (fetch_resolve net k s)
             = (useMockData s \<or> present_truthy kvs ''usedMockData'')"
proof -
  have g: "getSentimentData (ArgObj (pending s ! k)) net = Inr (JObj kvs)"
    using assms(2,3) by (simp add: try_fetch_def)
  show ?thesis
    using assms(1,4)
    by (auto simp: fetch_resolve_def g fetch_continue_def get_prop_def on_catch_def
        present_truthy_def read_prop_def Let_def
        simp del: getSentimentData.simps split: option.splits)
qed

theorem shape_error_caught_witness:
  "getSentimentData (ArgObj \<lparr>desc = Some True, limit = Some 30\<rparr>) empty_object_answer
     = Inr (JObj [])
   \<and> data (fetch_resolve empty_object_answer 0 (fetch_begin initial_page)) = []
   \<and> error (fetch_resolve empty_object_answer 0 (fetch_begin initial_page))
       = Some ''Failed to load data. Check your API token in .env.local.''
   \<and> useMockData (fetch_resolve empty_object_answer 0 (fetch_begin initial_page)) = False"
proof -
  let ?s = "fetch_begin initial_page"
  have p: "pending ?s = [\<lparr>desc = Some True, limit = Some 30\<rparr>]"
    by (simp add: fetch_begin_def initial_page_def)
  have k: "0 < length (pending ?s)" by (simp add: p)
  have n: "empty_object_answer (build_url (pending ?s ! 0)) = Responded 200 (Json (JObj []))"
    by (simp add: empty_object_answer_def)
  have ok: "response_ok 200" by (simp add: response_ok_def)
  have m: "map_of ([] :: (string \<times> jsval) list) ''data'' = None" by simp
  have i: "data ?s = []" "useMockData ?s = False"
    by (simp_all add: fetch_begin_def initial_page_def)
  from shape_error_caught [of 0 ?s empty_object_answer 200 "[]", OF k n ok m] p i
  show ?thesis by (simp add: present_truthy_def del: getSentimentData.simps)
qed

lemma run_overlapping:
  "run overlapping_fetches initial_page =
     \<lparr>data = [normalize_coin 0 coin_A], loading = False, error = None,
      useMockData = False, isDescending = True, displayLimit = 20, pending = []\<rparr>"
  by (simp add: run_def overlapping_fetches_def initial_page_def fetch_begin_def
      fetch_resolve_def fetch_continue_def try_fetch_def build_url_def show_int_def
      show_nat.simps digit_char_def two_answers_def response_ok_def get_prop_def read_prop_def
      process_coin_def coin_A_def coin_B_def enumerate_eq_zip)

lemma answer_for_limit_20:
  "data (fetch_continue
      (getSentimentData (ArgObj \<lparr>desc = Some True, limit = Some 20\<rparr>) two_answers) initial_page)
     = [normalize_coin 0 coin_B]"
  by (simp add: fetch_continue_def try_fetch_def build_url_def show_int_def
      show_nat.simps digit_char_def two_answers_def response_ok_def get_prop_def read_prop_def
      process_coin_def coin_B_def enumerate_eq_zip)

text \<open>
  C9, as stated, fails: fetch A (limit 10) and fetch B (limit 20) are in flight together,
  B resolves first and A after it. The page then shows A's record, under a display limit
  of 20, and not the record that B's envelope holds.
\<close>

theorem stale_response_displayed:
  "data (run overlapping_fetches initial_page) = [normalize_coin 0 coin_A]
   \<and> displayLimit (run overlapping_fetches initial_page) = 20
   \<and> data (fetch_continue
        (getSentimentData (ArgObj \<lparr>desc = Some True, limit = Some 20\<rparr>) two_answers)
        initial_page) = [normalize_coin 0 coin_B]
   \<and> data (run overlapping_fetches initial_page)
       \<noteq> data (fetch_continue
            (getSentimentData (ArgObj \<lparr>desc = Some True, limit = Some 20\<rparr>) two_answers)
            initial_page)"
proof -
  have "normalize_coin 0 coin_A \<noteq> normalize_coin 0 coin_B"
    by (simp add: normalize_coin_def assign_def coin_A_def coin_B_def)
  then show ?thesis
    by (simp add: run_overlapping answer_for_limit_20 del: getSentimentData.simps)
qed

text \<open>
  C9, amended. A suspended call of \<^verbatim>\<open>fetchCryptoData\<close> that resumes with a result whose
  \<^verbatim>\<open>data\<close> maps to records puts those records on display, whatever other calls are still
  suspended and whichever was started last; only its own entry leaves the suspended calls.
  After two overlapping fetches the page shows the one that resolved last.
\<close>

theorem resolved_fetch_applied:
  assumes "k < length (pending s)"
    and "getSentimentData (ArgObj (pending s ! k)) net = Inr result"
    and "\<not> nullish result"
    and "js_map process_coin (read_prop result ''data'') = Inr recs"
  shows "data (fetch_resolve net k s) = recs
         \<and> pending (fetch_resolve net k s) = take k (pending s) @ drop (Suc k) (pending s)"
  using assms
  by (simp add: fetch_resolve_def fetch_continue_def get_prop_def Let_def
      del: getSentimentData.simps)

theorem resolved_fetch_applied_witness:
  "data (fetch_resolve two_answers 0
      \<lparr>data = [normalize_coin 0 coin_B], loading = True, error = None, useMockData = False,
       isDescending = True, displayLimit = 20,
       pending = [\<lparr>desc = Some True, limit = Some 10\<rparr>]\<rparr>)
     = [normalize_coin 0 coin_A]"
proof -
  let ?s = "\<lparr>data = [normalize_coin 0 coin_B], loading = True, error = None,
       useMockData = False, isDescending = True, displayLimit = 20,
       pending = [\<lparr>desc = Some True, limit = Some 10\<rparr>]\<rparr>"
  let ?r = "JObj [(''data'', JArr [coin_A])]"
  have k: "0 < length (pending ?s)" by simp
  have g: "getSentimentData (ArgObj (pending ?s ! 0)) two_answers = Inr ?r"
    by (simp add: try_fetch_def build_url_def show_int_def show_nat.simps digit_char_def
        two_answers_def response_ok_def)
  have n: "\<not> nullish ?r" by simp
  have m: "js_map process_coin (read_prop ?r ''data'') = Inr [normalize_coin 0 coin_A]"
    by (simp add: read_prop_def process_coin_def coin_A_def enumerate_eq_zip)
  from resolved_fetch_applied [OF k g n m] show ?thesis by simp
qed


section \<open>Properties of the fallback branch over the store\<close>

lemma fallback_h_effect:
  assumes "sample_intact h"
  shows "\<exists>r d h'. fallback_h p h = Some (r, h')
           \<and> fresh h \<le> r \<and> fresh h \<le> fresh h'
           \<and> (\<forall>a<fresh h. cells h' a = cells h a)
           \<and> cells h' r = Some (ObjCell
                 [(''config'', Val (JObj [(''generated'', JNum 1749002977)])),
                  (''data'', Ref d), (''usedMockData'', Val (JBool True))])
           \<and> cells h' d = Some (ArrCell (fallback_data p))"
  using assms
  by (cases "desc p = Some True"; cases "limit p")
     (auto simp: sample_intact_def fallback_h_def spread_object_def field_ref_def
        spread_array_h_def reverse_h_def slice_h_def alloc_def mockData_cell_def
        mockData_addr_def mockData_data_addr_def fallback_data_def)


lemma fallback_h_intact:
  assumes "sample_intact h" and "fallback_h p h = Some (r, h')"
  shows "sample_intact h'"
proof -
  from fallback_h_effect [OF assms(1), of p] assms(2)
  have f: "fresh h \<le> fresh h'" and c: "\<forall>a<fresh h. cells h' a = cells h a"
    by auto
  from assms(1) have "mockData_addr < fresh h" "mockData_data_addr < fresh h"
    by (simp_all add: sample_intact_def mockData_addr_def mockData_data_addr_def)
  with c have "cells h' mockData_addr = cells h mockData_addr"
    "cells h' mockData_data_addr = cells h mockData_data_addr" by simp_all
  with assms(1) f show ?thesis by (simp add: sample_intact_def)
qed

lemma run_fallbacks_intact:
  "sample_intact h \<Longrightarrow> \<exists>h'. run_fallbacks ps h = Some h' \<and> sample_intact h'"
proof (induction ps arbitrary: h)
  case Nil
  then show ?case by simp
next
  case (Cons p ps)
  from fallback_h_effect [OF Cons.prems, of p]
  obtain r h1 where s: "fallback_h p h = Some (r, h1)" by blast
  from fallback_h_intact [OF Cons.prems s] have "sample_intact h1" .
  from Cons.IH [OF this] s show ?case by simp
qed

lemma module_store_intact: "sample_intact module_store"
  by (simp add: sample_intact_def module_store_def mockData_addr_def mockData_data_addr_def)

text \<open>
  C7. After any sequence of calls of the fallback branch, with any parameters, the
  \<^verbatim>\<open>mockData\<close> object and its \<^verbatim>\<open>data\<close> array are as the module made them: the same records
  in the same order. Each call builds its result in new cells and reverses only the copy
  it has just made.
\<close>

theorem mockData_never_mutated:
  "\<exists>h. run_fallbacks ps module_store = Some h
       \<and> cells h mockData_addr = cells module_store mockData_addr
       \<and> cells h mockData_data_addr = Some (ArrCell mockData_data)"
proof -
  from run_fallbacks_intact [OF module_store_intact, of ps]
  obtain h where "run_fallbacks ps module_store = Some h" and "sample_intact h" by blast
  then show ?thesis
    by (auto simp: sample_intact_def module_store_def mockData_addr_def mockData_data_addr_def)
qed

text \<open>A descending call with limit 3, then a call without parameters.\<close>

theorem mockData_never_mutated_witness:
  "\<exists>h. run_fallbacks [\<lparr>desc = Some True, limit = Some 3\<rparr>, \<lparr>desc = None, limit = None\<rparr>]
           module_store = Some h
       \<and> cells h mockData_addr = Some mockData_cell
       \<and> cells h mockData_data_addr = Some (ArrCell mockData_data)"
  using mockData_never_mutated
    [of "[\<lparr>desc = Some True, limit = Some 3\<rparr>, \<lparr>desc = None, limit = None\<rparr>]"]
  by (simp add: module_store_def mockData_addr_def mockData_data_addr_def)

section \<open>Properties of the proxy endpoint\<close>

lemma js_includes_no_start:
  "\<forall>c \<in> set s. c \<noteq> a \<Longrightarrow> \<not> js_includes s (a # pat)"
  by (induction s) auto

lemma show_nat_digits: "set (show_nat n) \<subseteq> set ''0123456789''"
proof (induction n rule: show_nat.induct)
  case (1 n)
  have d: "digit_char k \<in> set ''0123456789''" if "k < 10" for k
  proof -
    from that have "k \<in> {0, 1, 2, 3, 4, 5, 6, 7, 8, 9}" by auto
    then show ?thesis by (auto simp: digit_char_def)
  qed
  show ?case
  proof (cases "n < 10")
    case True
    then show ?thesis using d [of n] by (simp add: show_nat.simps)
  next
    case False
    then show ?thesis
      using "1" d [of "n mod 10"] by (subst show_nat.simps) auto
  qed
qed

lemma api_error_generic:
  "\<not> js_includes (''API Error: '' @ show_nat st) ''API_TOKEN is missing''"
proof -
  have "\<forall>c \<in> set (show_nat st). c \<noteq> CHR ''A''"
    using show_nat_digits [of st] by auto
  then have "\<not> js_includes (show_nat st) ''API_TOKEN is missing''"
    by (rule js_includes_no_start)
  then show ?thesis by simp
qed

text \<open>
  C8. Every failure of the handler is answered with status 500 and a body
  \<^verbatim>\<open>{ error: message }\<close>. A missing credential is found before any upstream request is made
  and is reported as \<^verbatim>\<open>Missing API key ...\<close>; a non-success upstream status is reported
  with the generic \<^verbatim>\<open>Failed to fetch data\<close>, which is a different message.
\<close>

theorem proxy_failure_response:
  "(token_missing API_TOKEN \<longrightarrow>
      GET API_TOKEN parseInt_text net q =
        (\<lparr>status = 500,
          json = JObj [(''error'',
            JStr ''Missing API key. Please set LUNARCRUSH_API_TOKEN in .env.local'')]\<rparr>, []))
   \<and> (failed (net (api_url parseInt_text q) (api_headers token)) \<longrightarrow> token \<noteq> [] \<longrightarrow>
        status (fst (GET (Some token) parseInt_text net q)) = 500
        \<and> (\<exists>m. json (fst (GET (Some token) parseInt_text net q)) = JObj [(''error'', JStr m)])
        \<and> snd (GET (Some token) parseInt_text net q)
            = [(api_url parseInt_text q, api_headers token)])
   \<and> (net (api_url parseInt_text q) (api_headers token) = Responded st b \<longrightarrow> \<not> response_ok st
        \<longrightarrow> token \<noteq> [] \<longrightarrow>
        json (fst (GET (Some token) parseInt_text net q))
          = JObj [(''error'', JStr ''Failed to fetch data'')])
   \<and> ''Missing API key. Please set LUNARCRUSH_API_TOKEN in .env.local'' \<noteq> ''Failed to fetch data''"
proof -
  have a: "token_missing API_TOKEN \<longrightarrow>
      GET API_TOKEN parseInt_text net q =
        (\<lparr>status = 500,
          json = JObj [(''error'',
            JStr ''Missing API key. Please set LUNARCRUSH_API_TOKEN in .env.local'')]\<rparr>, [])"
    by (auto simp: token_missing_def GET_def GET_try_def)
  have b: "failed (net (api_url parseInt_text q) (api_headers token)) \<longrightarrow> token \<noteq> [] \<longrightarrow>
        status (fst (GET (Some token) parseInt_text net q)) = 500
        \<and> (\<exists>m. json (fst (GET (Some token) parseInt_text net q)) = JObj [(''error'', JStr m)])
        \<and> snd (GET (Some token) parseInt_text net q)
            = [(api_url parseInt_text q, api_headers token)]"
    by (cases "net (api_url parseInt_text q) (api_headers token)" rule: failed.cases)
       (auto simp: GET_def GET_try_def Let_def)
  have c: "net (api_url parseInt_text q) (api_headers token) = Responded st b \<longrightarrow>
        \<not> response_ok st \<longrightarrow> token \<noteq> [] \<longrightarrow>
        json (fst (GET (Some token) parseInt_text net q))
          = JObj [(''error'', JStr ''Failed to fetch data'')]"
    using api_error_generic [of st] by (auto simp: GET_def GET_try_def Let_def)
  from a b c show ?thesis by simp
qed

theorem proxy_failure_response_witness:
  "GET None (\<lambda>v. v) (\<lambda>url headers. Responded 401 (Json JNull)) [(''limit'', ''10'')]
     = (\<lparr>status = 500,
         json = JObj [(''error'',
           JStr ''Missing API key. Please set LUNARCRUSH_API_TOKEN in .env.local'')]\<rparr>, [])
   \<and> fst (GET (Some ''key'') (\<lambda>v. v) (\<lambda>url headers. Responded 401 (Json JNull)) [(''limit'', ''10'')])
     = \<lparr>status = 500, json = JObj [(''error'', JStr ''Failed to fetch data'')]\<rparr>"
proof -
  let ?net = "\<lambda>(url :: string) (headers :: (string \<times> string) list). Responded 401 (Json JNull)"
  let ?q = "[(''limit'', ''10'')]"
  have m: "token_missing None" by (simp add: token_missing_def)
  have f: "failed (?net (api_url (\<lambda>v. v) ?q) (api_headers ''key''))"
    by (simp add: response_ok_def)
  have r: "?net (api_url (\<lambda>v. v) ?q) (api_headers ''key'') = Responded 401 (Json JNull)"
    by simp
  have n: "\<not> response_ok 401" by (simp add: response_ok_def)
  have k: "''key'' \<noteq> []" by simp
  from proxy_failure_response [of None "\<lambda>v. v" ?net ?q "''key''" 401 "Json JNull"] m f r n k
  show ?thesis by (cases "fst (GET (Some ''key'') (\<lambda>v. v) ?net ?q)") simp
qed

lemma map_of_without_desc:
  "name \<noteq> ''desc'' \<Longrightarrow> map_of (without_desc q) name = map_of q name"
  by (induction q) (auto simp: without_desc_def)

lemma map_of_without_desc_desc: "map_of (without_desc q) ''desc'' = None"
  by (induction q) (auto simp: without_desc_def)

text \<open>
  C10. With a credential, the handler sends the gateway one request, and its URL ends in
  \<^verbatim>\<open>&desc=1\<close> exactly when the \<^verbatim>\<open>desc\<close> parameter is the string \<^verbatim>\<open>1\<close>. With any other
  value, \<^verbatim>\<open>0\<close>, \<^verbatim>\<open>true\<close> or \<^verbatim>\<open>2\<close> among them, or with none, the request is the
  ascending one, without \<^verbatim>\<open>desc\<close>; the handler answers with what the gateway returned
  for it, no error on account of the value, and does in all what it does for a request
  without \<^verbatim>\<open>desc\<close>.
\<close>

theorem desc_only_exact_one:
  "(token \<noteq> [] \<longrightarrow> map_of q ''desc'' = Some ''1'' \<longrightarrow>
      snd (GET (Some token) parseInt_text net q) =
        [(''https://lunarcrush.com/api4/public/coins/list/v1?sort=sentiment&limit=''
            @ limit_text parseInt_text q @ ''&desc=1'',
          [(''Authorization'', ''Bearer '' @ token), (''Content-Type'', ''application/json'')])]
      \<and> (\<forall>st v.
            net (''https://lunarcrush.com/api4/public/coins/list/v1?sort=sentiment&limit=''
                   @ limit_text parseInt_text q @ ''&desc=1'')
                [(''Authorization'', ''Bearer '' @ token), (''Content-Type'', ''application/json'')]
              = Responded st (Json v) \<longrightarrow> response_ok st \<longrightarrow>
            fst (GET (Some token) parseInt_text net q) = \<lparr>status = 200, json = v\<rparr>))
   \<and> (token \<noteq> [] \<longrightarrow> map_of q ''desc'' \<noteq> Some ''1'' \<longrightarrow>
      snd (GET (Some token) parseInt_text net q) =
        [(''https://lunarcrush.com/api4/public/coins/list/v1?sort=sentiment&limit=''
            @ limit_text parseInt_text q,
          [(''Authorization'', ''Bearer '' @ token), (''Content-Type'', ''application/json'')])]
      \<and> (\<forall>st v.
            net (''https://lunarcrush.com/api4/public/coins/list/v1?sort=sentiment&limit=''
                   @ limit_text parseInt_text q)
                [(''Authorization'', ''Bearer '' @ token), (''Content-Type'', ''application/json'')]
              = Responded st (Json v) \<longrightarrow> response_ok st \<longrightarrow>
            fst (GET (Some token) parseInt_text net q) = \<lparr>status = 200, json = v\<rparr>))
   \<and> (map_of q ''desc'' \<noteq> Some ''1'' \<longrightarrow>
      GET API_TOKEN parseInt_text net q = GET API_TOKEN parseInt_text net (without_desc q))"
proof -
  have l: "limit_text parseInt_text (without_desc q) = limit_text parseInt_text q"
    by (simp add: limit_text_def map_of_without_desc)
  have d: "desc_flag (without_desc q) = 0"
    by (simp add: desc_flag_def map_of_without_desc_desc)
  have u: "api_url parseInt_text (without_desc q) = api_url parseInt_text q"
    if "map_of q ''desc'' \<noteq> Some ''1''"
  proof -
    from that have "desc_flag q = 0" by (simp add: desc_flag_def)
    then show ?thesis by (simp add: api_url_def l d)
  qed
  have g: "GET API_TOKEN parseInt_text net q = GET API_TOKEN parseInt_text net (without_desc q)"
    if "map_of q ''desc'' \<noteq> Some ''1''"
    unfolding GET_def GET_try_def u [OF that] by (rule refl)
  have c: "snd (GET (Some token) parseInt_text net q)
             = [(api_url parseInt_text q, api_headers token)]"
    if "token \<noteq> []"
    using that
    by (cases "net (api_url parseInt_text q) (api_headers token)" rule: failed.cases)
       (auto simp: GET_def GET_try_def Let_def)
  have r: "fst (GET (Some token) parseInt_text net q) = \<lparr>status = 200, json = v\<rparr>"
    if "token \<noteq> []"
      and "net (api_url parseInt_text q) (api_headers token) = Responded st (Json v)"
      and "response_ok st" for st v
    using that by (simp add: GET_def GET_try_def)
  have a1: "api_url parseInt_text q =
      ''https://lunarcrush.com/api4/public/coins/list/v1?sort=sentiment&limit=''
        @ limit_text parseInt_text q @ ''&desc=1''"
    if "map_of q ''desc'' = Some ''1''"
    using that by (simp add: api_url_def desc_flag_def BASE_URL_def)
  have a0: "api_url parseInt_text q =
      ''https://lunarcrush.com/api4/public/coins/list/v1?sort=sentiment&limit=''
        @ limit_text parseInt_text q"
    if "map_of q ''desc'' \<noteq> Some ''1''"
    using that by (simp add: api_url_def desc_flag_def BASE_URL_def)
  have h: "api_headers token =
      [(''Authorization'', ''Bearer '' @ token), (''Content-Type'', ''application/json'')]"
    by (simp add: api_headers_def)
  show ?thesis
  proof (intro conjI impI allI)
    assume "token \<noteq> []" and "map_of q ''desc'' = Some ''1''"
    then show "snd (GET (Some token) parseInt_text net q) =
        [(''https://lunarcrush.com/api4/public/coins/list/v1?sort=sentiment&limit=''
            @ limit_text parseInt_text q @ ''&desc=1'',
          [(''Authorization'', ''Bearer '' @ token), (''Content-Type'', ''application/json'')])]"
      using c a1 h by simp
  next
    fix st v
    assume "token \<noteq> []" and "map_of q ''desc'' = Some ''1''"
      and "net (''https://lunarcrush.com/api4/public/coins/list/v1?sort=sentiment&limit=''
                   @ limit_text parseInt_text q @ ''&desc=1'')
                [(''Authorization'', ''Bearer '' @ token), (''Content-Type'', ''application/json'')]
              = Responded st (Json v)"
      and "response_ok st"
    then show "fst (GET (Some token) parseInt_text net q) = \<lparr>status = 200, json = v\<rparr>"
      using r [of st v] a1 h by simp
  next
    assume "token \<noteq> []" and "map_of q ''desc'' \<noteq> Some ''1''"
    then show "snd (GET (Some token) parseInt_text net q) =
        [(''https://lunarcrush.com/api4/public/coins/list/v1?sort=sentiment&limit=''
            @ limit_text parseInt_text q,
          [(''Authorization'', ''Bearer '' @ token), (''Content-Type'', ''application/json'')])]"
      using c a0 h by simp
  next
    fix st v
    assume "token \<noteq> []" and "map_of q ''desc'' \<noteq> Some ''1''"
      and "net (''https://lunarcrush.com/api4/public/coins/list/v1?sort=sentiment&limit=''
                   @ limit_text parseInt_text q)
                [(''Authorization'', ''Bearer '' @ token), (''Content-Type'', ''application/json'')]
              = Responded st (Json v)"
      and "response_ok st"
    then show "fst (GET (Some token) parseInt_text net q) = \<lparr>status = 200, json = v\<rparr>"
      using r [of st v] a0 h by simp
  next
    assume "map_of q ''desc'' \<noteq> Some ''1''"
    then show "GET API_TOKEN parseInt_text net q
        = GET API_TOKEN parseInt_text net (without_desc q)"
      by (rule g)
  qed
qed

text \<open>
  A gateway that returns the URL it was asked for, with the credential \<^verbatim>\<open>key\<close> and limit
  10: \<^verbatim>\<open>desc=1\<close> is asked in descending order, \<^verbatim>\<open>desc=true\<close>, \<^verbatim>\<open>desc=2\<close>, \<^verbatim>\<open>desc=0\<close> and
  no \<^verbatim>\<open>desc\<close> in ascending order, each with status 200.
\<close>

theorem desc_only_exact_one_witness:
  "GET (Some ''key'') (\<lambda>v. v) (\<lambda>url headers. Responded 200 (Json (JStr url)))
       [(''desc'', ''1''), (''limit'', ''10'')]
     = (\<lparr>status = 200, json = JStr
          ''https://lunarcrush.com/api4/public/coins/list/v1?sort=sentiment&limit=10&desc=1''\<rparr>,
        [(''https://lunarcrush.com/api4/public/coins/list/v1?sort=sentiment&limit=10&desc=1'',
          [(''Authorization'', ''Bearer key''), (''Content-Type'', ''application/json'')])])
   \<and> GET (Some ''key'') (\<lambda>v. v) (\<lambda>url headers. Responded 200 (Json (JStr url)))
       [(''desc'', ''true''), (''limit'', ''10'')]
     = (\<lparr>status = 200, json = JStr
          ''https://lunarcrush.com/api4/public/coins/list/v1?sort=sentiment&limit=10''\<rparr>,
        [(''https://lunarcrush.com/api4/public/coins/list/v1?sort=sentiment&limit=10'',
          [(''Authorization'', ''Bearer key''), (''Content-Type'', ''application/json'')])])
   \<and> GET (Some ''key'') (\<lambda>v. v) (\<lambda>url headers. Responded 200 (Json (JStr url)))
       [(''desc'', ''2''), (''limit'', ''10'')]
     = (\<lparr>status = 200, json = JStr
          ''https://lunarcrush.com/api4/public/coins/list/v1?sort=sentiment&limit=10''\<rparr>,
        [(''https://lunarcrush.com/api4/public/coins/list/v1?sort=sentiment&limit=10'',
          [(''Authorization'', ''Bearer key''), (''Content-Type'', ''application/json'')])])
   \<and> GET (Some ''key'') (\<lambda>v. v) (\<lambda>url headers. Responded 200 (Json (JStr url)))
       [(''desc'', ''0''), (''limit'', ''10'')]
     = (\<lparr>status = 200, json = JStr
          ''https://lunarcrush.com/api4/public/coins/list/v1?sort=sentiment&limit=10''\<rparr>,
        [(''https://lunarcrush.com/api4/public/coins/list/v1?sort=sentiment&limit=10'',
          [(''Authorization'', ''Bearer key''), (''Content-Type'', ''application/json'')])])
   \<and> GET (Some ''key'') (\<lambda>v. v) (\<lambda>url headers. Responded 200 (Json (JStr url)))
       [(''limit'', ''10'')]
     = (\<lparr>status = 200, json = JStr
          ''https://lunarcrush.com/api4/public/coins/list/v1?sort=sentiment&limit=10''\<rparr>,
        [(''https://lunarcrush.com/api4/public/coins/list/v1?sort=sentiment&limit=10'',
          [(''Authorization'', ''Bearer key''), (''Content-Type'', ''application/json'')])])"
proof -
  let ?net = "\<lambda>(url :: string) (headers :: (string \<times> string) list). Responded 200 (Json (JStr url))"
  let ?asc = "''https://lunarcrush.com/api4/public/coins/list/v1?sort=sentiment&limit=10''"
  have k: "''key'' \<noteq> []" by simp
  have ok: "response_ok 200" by (simp add: response_ok_def)
  have pair: "x = (fst x, snd x)" for x :: "http_response \<times> (string \<times> (string \<times> string) list) list"
    by simp
  have one: "GET (Some ''key'') (\<lambda>v. v) ?net [(''desc'', ''1''), (''limit'', ''10'')]
     = (\<lparr>status = 200, json = JStr (?asc @ ''&desc=1'')\<rparr>,
        [(?asc @ ''&desc=1'',
          [(''Authorization'', ''Bearer key''), (''Content-Type'', ''application/json'')])])"
  proof -
    let ?q = "[(''desc'', ''1''), (''limit'', ''10'')]"
    have t: "limit_text (\<lambda>v. v) ?q = ''10''" by (simp add: limit_text_def)
    from desc_only_exact_one [of "''key''" ?q "\<lambda>v. v" ?net, THEN conjunct1] k ok t
    have "snd (GET (Some ''key'') (\<lambda>v. v) ?net ?q)
        = [(?asc @ ''&desc=1'',
            [(''Authorization'', ''Bearer key''), (''Content-Type'', ''application/json'')])]"
      and "fst (GET (Some ''key'') (\<lambda>v. v) ?net ?q)
        = \<lparr>status = 200, json = JStr (?asc @ ''&desc=1'')\<rparr>"
      by simp_all
    then show ?thesis using pair [of "GET (Some ''key'') (\<lambda>v. v) ?net ?q"] by simp
  qed
  have other: "GET (Some ''key'') (\<lambda>v. v) ?net q
      = (\<lparr>status = 200, json = JStr ?asc\<rparr>,
         [(?asc, [(''Authorization'', ''Bearer key''), (''Content-Type'', ''application/json'')])])"
    if "map_of q ''desc'' \<noteq> Some ''1''" and "limit_text (\<lambda>v. v) q = ''10''" for q
  proof -
    from desc_only_exact_one [of "''key''" q "\<lambda>v. v" ?net, THEN conjunct2, THEN conjunct1]
      k that ok
    have "snd (GET (Some ''key'') (\<lambda>v. v) ?net q)
        = [(?asc, [(''Authorization'', ''Bearer key''), (''Content-Type'', ''application/json'')])]"
      and "fst (GET (Some ''key'') (\<lambda>v. v) ?net q) = \<lparr>status = 200, json = JStr ?asc\<rparr>"
      by simp_all
    then show ?thesis using pair [of "GET (Some ''key'') (\<lambda>v. v) ?net q"] by simp
  qed
  have t: "limit_text (\<lambda>v. v) [(''desc'', d), (''limit'', ''10'')] = ''10''"
    "limit_text (\<lambda>v. v) [(''limit'', ''10'')] = ''10''" for d
    by (simp_all add: limit_text_def)
  from one
    other [of "[(''desc'', ''true''), (''limit'', ''10'')]"]
    other [of "[(''desc'', ''2''), (''limit'', ''10'')]"]
    other [of "[(''desc'', ''0''), (''limit'', ''10'')]"]
    other [of "[(''limit'', ''10'')]"] t
  show ?thesis by simp
qed

end
